theory Spec2Isabelle
  imports Complex_Main
begin

section \<open>The load register and evaluator of Dashboard.py\<close>

text \<open>
  The embedding follows \<^verbatim>\<open>MomentForceCalculator\<close> in \<^verbatim>\<open>src/Dashboard.py\<close>.
  Python floats are modelled as exact reals: \<open>math.pi\<close> is \<open>pi\<close>, \<open>math.sin\<close> is \<open>sin\<close>,
  and no rounding is modelled. The theorems below are about the formulas the code
  evaluates, the branches it takes and the errors it raises. What only the rounding of
  IEEE doubles decides is outside this model and is not stated here: whether a result
  that is zero in exact arithmetic is zero in doubles, and whether two summations of
  the same numbers in different orders agree to the last bit.
  A Python string is the list of its code points; the only character beyond ASCII in
  the catalog, U+00E9, is written \<open>CHR 0xE9\<close>.
\<close>

subsection \<open>Errors\<close>

datatype py_error = KeyError string | ZeroDivisionError | UnboundLocalError string

definition py_bind :: "py_error + 'a \<Rightarrow> ('a \<Rightarrow> py_error + 'b) \<Rightarrow> py_error + 'b" where
  "py_bind r f = (case r of Inl e \<Rightarrow> Inl e | Inr v \<Rightarrow> f v)"

text \<open>Float division \<open>a / b\<close>: Python raises on a zero divisor.\<close>

definition py_truediv :: "real \<Rightarrow> real \<Rightarrow> py_error + real" where
  "py_truediv a b = (if b = 0 then Inl ZeroDivisionError else Inr (a / b))"

text \<open>Subscription \<open>d[k]\<close> of a dict written as an association list.\<close>

definition getitem :: "(string \<times> 'v) list \<Rightarrow> string \<Rightarrow> py_error + 'v" where
  "getitem d k = (case map_of d k of None \<Rightarrow> Inl (KeyError k) | Some v \<Rightarrow> Inr v)"

text \<open>The substring test \<open>sub in s\<close> on strings.\<close>

fun contains :: "string \<Rightarrow> string \<Rightarrow> bool" where
  "contains sub [] = (sub = [])"
| "contains sub (c # cs) = (take (length sub) (c # cs) = sub \<or> contains sub cs)"

subsection \<open>The material catalog (\<open>__init__\<close>, lines 72-79)\<close>

definition Beton_C25_30 :: string where
  "Beton_C25_30 = ''B'' @ [CHR 0xE9] @ ''ton C25/30''"

definition Beton_C30_37 :: string where
  "Beton_C30_37 = ''B'' @ [CHR 0xE9] @ ''ton C30/37''"

definition materials :: "(string \<times> (string \<times> real) list) list" where
  "materials =
    [(Beton_C25_30, [(''E'', 30000000000), (''fc'', 25000000), (''weight'', 2500)]),
     (Beton_C30_37, [(''E'', 33000000000), (''fc'', 30000000), (''weight'', 2500)]),
     (''Acier S235'', [(''E'', 210000000000), (''fy'', 235000000), (''weight'', 7850)]),
     (''Acier S355'', [(''E'', 210000000000), (''fy'', 355000000), (''weight'', 7850)]),
     (''Acier S500'', [(''E'', 210000000000), (''fy'', 500000000), (''weight'', 7850)]),
     (''Bois Classe C24'', [(''E'', 11000000000), (''fm'', 24000000), (''weight'', 420)])]"

subsection \<open>Load entries\<close>

text \<open>
  An entry of \<open>self.forces\<close> is a dict whose \<open>'type'\<close> key is \<open>'ponctuelle'\<close> or
  \<open>'r\'epartie'\<close>; every reader tests \<open>force['type'] == 'ponctuelle'\<close> and takes the
  other branch otherwise. The two shapes of dict are the two constructors, the keys
  are the selectors. A local variable of the source whose name is also a key carries
  a prime here (\<open>moment'\<close> for the local \<open>moment\<close>).
\<close>

datatype force =
    Ponctuelle (valeur: real) (distance: real) (angle: real) (moment: real) (force_perp: real)
  | Repartie (valeur: real) (debut: real) (fin: real) (longueur: real)
      (force_equiv: real) (moment_equiv: real)

fun is_ponctuelle :: "force \<Rightarrow> bool" where
  "is_ponctuelle (Ponctuelle v d a m fp) = True"
| "is_ponctuelle (Repartie v s e l fe me) = False"

subsection \<open>\<open>calculate_moment_force\<close> (lines 138-149)\<close>

text \<open>
  In exact arithmetic \<open>sin (radians 180) = 0\<close>. In doubles
  \<open>math.sin(math.radians(180))\<close> is about \<open>1.2246e-16\<close>, so the code returns a small
  positive moment at 180 degrees where this definition returns 0; nothing below
  depends on the value at 180 degrees.
\<close>

definition radians :: "real \<Rightarrow> real" where
  "radians a = a * pi / 180"

definition calculate_moment_force :: "real \<Rightarrow> real \<Rightarrow> real \<Rightarrow> real \<times> real" where
  "calculate_moment_force force distance' angle' =
    (let angle_rad = radians angle';
         force_perp' = force * sin angle_rad;
         moment' = force_perp' * distance'
     in (moment', force_perp'))"

subsection \<open>\<open>calculate_section_properties\<close> (lines 151-168)\<close>

definition calculate_section_properties ::
  "real \<Rightarrow> real \<Rightarrow> string \<Rightarrow> py_error + real \<times> real \<times> real" where
  "calculate_section_properties width height section_type =
    (if section_type = ''rectangulaire'' then
       (let area = width * height;
            inertia = (width * height ^ 3) / 12
        in py_bind (py_truediv inertia (height / 2))
             (\<lambda>module_inertie. Inr (area, inertia, module_inertie)))
     else if section_type = ''circulaire'' then
       (let diameter = width;
            area = (pi * diameter ^ 2) / 4;
            inertia = (pi * diameter ^ 4) / 64
        in py_bind (py_truediv inertia (diameter / 2))
             (\<lambda>module_inertie. Inr (area, inertia, module_inertie)))
     else if section_type = ''en I'' then
       (let area = width * height * 0.8;
            inertia = (width * height ^ 3) / 12 * 0.7
        in py_bind (py_truediv inertia (height / 2))
             (\<lambda>module_inertie. Inr (area, inertia, module_inertie)))
     else Inl (UnboundLocalError ''area''))"

subsection \<open>The two input forms of \<open>create_force_input_section\<close> (lines 180-237)\<close>

text \<open>
  What a form shows after a submission: \<open>st.success\<close> with the formatted number.
  Nothing else is ever shown by the two forms.
\<close>

datatype message = Force_ajoutee real | Charge_repartie_ajoutee real

definition force_input_form ::
  "force list \<Rightarrow> bool \<Rightarrow> real \<Rightarrow> real \<Rightarrow> real \<Rightarrow> force list \<times> message list" where
  "force_input_form forces submitted force_value distance' angle' =
    (if submitted \<and> force_value > 0 then
       (case calculate_moment_force (force_value * 1000) distance' angle' of
          (moment', force_perp') \<Rightarrow>
            (forces @ [Ponctuelle force_value distance' angle' moment' force_perp'],
             [Force_ajoutee (moment' / 1000)]))
     else (forces, []))"

definition distributed_load_form ::
  "force list \<Rightarrow> bool \<Rightarrow> real \<Rightarrow> real \<Rightarrow> real \<Rightarrow> force list \<times> message list" where
  "distributed_load_form forces submitted_load load_value start_pos end_pos =
    (if submitted_load \<and> load_value > 0 \<and> end_pos > start_pos then
       (let length = end_pos - start_pos;
            force_equiv' = load_value * length;
            moment_equiv' = force_equiv' * (start_pos + length / 2)
        in (forces @ [Repartie load_value start_pos end_pos length force_equiv' moment_equiv'],
            [Charge_repartie_ajoutee force_equiv']))
     else (forces, []))"

subsection \<open>The totals loop of \<open>create_moment_calculation_section\<close> (lines 280-289)\<close>

text \<open>
  The section returns at line 271 when the register is empty, so the loops below and
  the diagram run on non-empty registers only. They are modelled on any register.
  The additions are exact here, hence associative; the \<open>+=\<close> of the code rounds each
  partial sum, so the last bits of its totals depend on the order of the entries.
\<close>

fun totals_step :: "real \<times> real \<Rightarrow> force \<Rightarrow> real \<times> real" where
  "totals_step (total_moment, total_force) (Ponctuelle v d a m fp) =
     (total_moment + m, total_force + fp)"
| "totals_step (total_moment, total_force) (Repartie v s e l fe me) =
     (total_moment + me * 1000, total_force + fe * 1000)"

definition totals :: "force list \<Rightarrow> real \<times> real" where
  "totals forces = foldl totals_step (0, 0) forces"

definition total_moment :: "force list \<Rightarrow> real" where
  "total_moment forces = fst (totals forces)"

definition total_force :: "force list \<Rightarrow> real" where
  "total_force forces = snd (totals forces)"

subsection \<open>The moment diagram (lines 302-317)\<close>

text \<open>
  \<open>numpy.linspace(start, stop, num)\<close> with its default \<open>endpoint=True\<close>: \<open>num\<close> samples
  \<open>start + i * step\<close> with \<open>step = (stop - start) / (num - 1)\<close>, the last one then
  overwritten with \<open>stop\<close>.
\<close>

definition linspace :: "real \<Rightarrow> real \<Rightarrow> nat \<Rightarrow> real list" where
  "linspace start stop num =
    (if num = 0 then []
     else if num = 1 then [start]
     else (map (\<lambda>i. start + real i * ((stop - start) / real (num - 1))) [0..<num])
            [num - 1 := stop])"

definition x_points :: "real list" where
  "x_points = linspace 0 10 100"

text \<open>One pass of the outer loop: the inner loop over \<open>enumerate(x_points)\<close>.\<close>

fun add_force :: "real list \<Rightarrow> real list \<Rightarrow> force \<Rightarrow> real list" where
  "add_force xs moment_points (Ponctuelle v d a m fp) =
     map (\<lambda>(x, y). if x \<ge> d then y + m / 1000 else y) (zip xs moment_points)"
| "add_force xs moment_points (Repartie v s e l fe me) =
     map (\<lambda>(x, y). if x \<ge> s then (if x \<le> e then y + v * (x - s) ^ 2 / 2 else y + me) else y)
       (zip xs moment_points)"

definition moment_points :: "real list \<Rightarrow> force list \<Rightarrow> real list" where
  "moment_points xs forces = foldl (add_force xs) (replicate (length xs) 0) forces"

definition moment_diagram :: "force list \<Rightarrow> (real \<times> real) list" where
  "moment_diagram forces = zip x_points (moment_points x_points forces)"

text \<open>
  What one entry adds at position \<open>x\<close>, written after the description of the diagram:
  a step for a point load, a quadratic ramp and then a flat value for a distributed one.
\<close>

fun contribution :: "force \<Rightarrow> real \<Rightarrow> real" where
  "contribution (Ponctuelle v d a m fp) x = (if x \<ge> d then m / 1000 else 0)"
| "contribution (Repartie v s e l fe me) x =
     (if x < s then 0 else if x \<le> e then v * (x - s) ^ 2 / 2 else me)"

subsection \<open>Allowable stress (lines 357-360)\<close>

definition contrainte_adm :: "string \<Rightarrow> py_error + real" where
  "contrainte_adm material_props =
    (if contains ''Acier'' material_props then
       py_bind (getitem materials material_props) (\<lambda>m.
       py_bind (getitem m ''fy'') (\<lambda>fy. Inr (fy / 1.15)))
     else
       py_bind (getitem materials material_props) (\<lambda>m.
       py_bind (getitem m ''fc'') (\<lambda>fc. Inr (fc / 1.5))))"

subsection \<open>Deflection (lines 434-447)\<close>

definition I_est :: real where
  "I_est = 0.3 * 0.5 ^ 3 / 12"

fun fleche_step :: "real \<Rightarrow> real \<Rightarrow> py_error + real \<Rightarrow> force \<Rightarrow> py_error + real" where
  "fleche_step longueur_poutre E acc (Ponctuelle v d a m fp) =
     py_bind acc (\<lambda>fleche_max.
       (let P = v * 1000 in
        py_bind (py_truediv (P * longueur_poutre ^ 3) (48 * E * I_est))
          (\<lambda>fleche_force. Inr (fleche_max + fleche_force))))"
| "fleche_step longueur_poutre E acc (Repartie v s e l fe me) = acc"

text \<open>\<open>None\<close>: the guard of line 434 fails and no deflection is computed.\<close>

definition fleche_max :: "force list \<Rightarrow> real \<Rightarrow> real \<Rightarrow> (py_error + real) option" where
  "fleche_max forces longueur_poutre E =
    (if forces \<noteq> [] \<and> longueur_poutre > 0
     then Some (foldl (fleche_step longueur_poutre E) (Inr 0) forces)
     else None)"

subsection \<open>Applied load of the stability tab (lines 497-499)\<close>

text \<open>The builtin \<open>sum\<close>: a left fold from 0.\<close>

definition py_sum :: "real list \<Rightarrow> real" where
  "py_sum xs = foldl (+) 0 xs"

definition charge_appliquee :: "force list \<Rightarrow> real option" where
  "charge_appliquee forces =
    (if forces \<noteq> [] then Some (py_sum (map valeur forces)) else None)"

section \<open>Properties\<close>

subsection \<open>Totals\<close>

lemma foldl_totals_step:
  "foldl totals_step (tm, tf) forces =
     (tm + sum_list (map (\<lambda>f. case f of Ponctuelle v d a m fp \<Rightarrow> m
                                | Repartie v s e l fe me \<Rightarrow> me * 1000) forces),
      tf + sum_list (map (\<lambda>f. case f of Ponctuelle v d a m fp \<Rightarrow> fp
                                | Repartie v s e l fe me \<Rightarrow> fe * 1000) forces))"
proof (induction forces arbitrary: tm tf)
  case Nil
  show ?case by simp
next
  case (Cons f fs)
  show ?case by (cases f) (simp_all add: Cons.IH)
qed

lemma sum_list_split_type:
  "sum_list (map (\<lambda>f. case f of Ponctuelle v d a m fp \<Rightarrow> g f
                        | Repartie v s e l fe me \<Rightarrow> h f) forces) =
     (sum_list (map g (filter is_ponctuelle forces)) :: real) +
     sum_list (map h (filter (\<lambda>f. \<not> is_ponctuelle f) forces))"
proof (induction forces)
  case Nil
  show ?case by simp
next
  case (Cons f fs)
  then show ?case by (cases f) simp_all
qed

text \<open>
  C1. For every load register the loop of lines 280-289 leaves in \<open>total_moment\<close> the
  sum of the stored \<open>moment\<close> of the point loads plus the sum of the \<open>moment_equiv\<close> of
  the distributed loads, each multiplied by 1000, and in \<open>total_force\<close> the sum of the
  \<open>force_perp\<close> of the point loads plus the sum of the \<open>force_equiv\<close> of the distributed
  loads, each multiplied by 1000. The factor 1000 is in the summation, not in the
  stored fields.
\<close>

theorem total_moment_force_sums:
  "total_moment forces =
     sum_list (map moment (filter is_ponctuelle forces)) +
     sum_list (map (\<lambda>f. moment_equiv f * 1000) (filter (\<lambda>f. \<not> is_ponctuelle f) forces))
   \<and> total_force forces =
     sum_list (map force_perp (filter is_ponctuelle forces)) +
     sum_list (map (\<lambda>f. force_equiv f * 1000) (filter (\<lambda>f. \<not> is_ponctuelle f) forces))"
proof -
  have m: "(\<lambda>f. case f of Ponctuelle v d a m fp \<Rightarrow> m | Repartie v s e l fe me \<Rightarrow> me * 1000)
         = (\<lambda>f. case f of Ponctuelle v d a m fp \<Rightarrow> moment f
                  | Repartie v s e l fe me \<Rightarrow> moment_equiv f * 1000)"
    by (rule ext) (simp split: force.split)
  have p: "(\<lambda>f. case f of Ponctuelle v d a m fp \<Rightarrow> fp | Repartie v s e l fe me \<Rightarrow> fe * 1000)
         = (\<lambda>f. case f of Ponctuelle v d a m fp \<Rightarrow> force_perp f
                  | Repartie v s e l fe me \<Rightarrow> force_equiv f * 1000)"
    by (rule ext) (simp split: force.split)
  show ?thesis
    unfolding total_moment_def total_force_def totals_def foldl_totals_step
    by (simp add: m p sum_list_split_type)
qed

subsection \<open>The input forms\<close>

text \<open>
  C5. For every distributed load with intensity > 0 and end > start, the entry that
  \<open>distributed_load_form\<close> appends stores \<open>force_equiv\<close> = intensity * (end - start) and
  \<open>moment_equiv\<close> = \<open>force_equiv\<close> * (start + (end - start) / 2), and the centroid
  start + (end - start) / 2 lies strictly between start and end.
\<close>

theorem distributed_load_equivalent:
  assumes "load_value > 0" and "end_pos > start_pos"
  shows "distributed_load_form forces True load_value start_pos end_pos
           = (forces @ [Repartie load_value start_pos end_pos (end_pos - start_pos)
                          (load_value * (end_pos - start_pos))
                          (load_value * (end_pos - start_pos)
                             * (start_pos + (end_pos - start_pos) / 2))],
              [Charge_repartie_ajoutee (load_value * (end_pos - start_pos))])
       \<and> start_pos < start_pos + (end_pos - start_pos) / 2
       \<and> start_pos + (end_pos - start_pos) / 2 < end_pos"
proof -
  have c: "start_pos < start_pos + (end_pos - start_pos) / 2
           \<and> start_pos + (end_pos - start_pos) / 2 < end_pos"
    using assms(2) by (simp add: field_simps)
  show ?thesis using assms c by (simp add: distributed_load_form_def Let_def)
qed

theorem distributed_load_equivalent_witness:
  "(5::real) > 0 \<and> (4::real) > 0
   \<and> distributed_load_form [] True 5 0 4
        = ([Repartie 5 0 4 4 20 40], [Charge_repartie_ajoutee 20])"
  using distributed_load_equivalent [of 5 0 4 "[]"] by simp

text \<open>
  C3, as the code has it. For every invalid submission (a point load with magnitude
  \<le> 0, or a distributed load with intensity \<le> 0 or end \<le> start, end = start included)
  the form appends nothing: the register is left unchanged. No error is raised and no
  message is shown; the submission is dropped silently by the guards of lines 194 and
  223.
\<close>

theorem invalid_submission_silent:
  "(force_value \<le> 0 \<longrightarrow>
      force_input_form forces submitted force_value distance' angle' = (forces, []))
   \<and> (load_value \<le> 0 \<or> end_pos \<le> start_pos \<longrightarrow>
      distributed_load_form forces submitted_load load_value start_pos end_pos = (forces, []))"
  by (auto simp add: force_input_form_def distributed_load_form_def)

theorem invalid_submission_silent_witness:
  "(0::real) \<le> 0 \<and> force_input_form [Repartie 5 0 4 4 20 40] True 0 2 90
       = ([Repartie 5 0 4 4 20 40], [])
   \<and> (2::real) \<le> 2 \<and> distributed_load_form [Repartie 5 0 4 4 20 40] True 5 2 2
       = ([Repartie 5 0 4 4 20 40], [])"
  using invalid_submission_silent [of 0 "[Repartie 5 0 4 4 20 40]" True 2 90 5 2 2 True]
  by simp

text \<open>
  C3 as stated says that the user is shown a message. A distributed load with
  end = start = 2 and a point load of magnitude 0, each submitted on the empty register,
  leave the register empty and show nothing.
\<close>

theorem invalid_submission_counterexample:
  "distributed_load_form [] True 5 2 2 = ([], []) \<and> force_input_form [] True 0 2 90 = ([], [])"
  by (simp add: force_input_form_def distributed_load_form_def)

subsection \<open>Section properties\<close>

text \<open>
  C8. For every width > 0 and height > 0, \<open>calculate_section_properties\<close> returns for
  a rectangular section area w * h, inertia w * h^3 / 12 and modulus inertia / (h / 2);
  for a circular section, with the width as diameter d and the height unused, area
  pi * d^2 / 4, inertia pi * d^4 / 64 and modulus inertia / (d / 2); for an I section
  area 0.8 * w * h, inertia 0.7 * w * h^3 / 12 and modulus inertia / (h / 2).
\<close>

theorem section_properties_formulas:
  assumes "w > 0" and "h > 0"
  shows "calculate_section_properties w h ''rectangulaire''
           = Inr (w * h, w * h ^ 3 / 12, (w * h ^ 3 / 12) / (h / 2))
       \<and> calculate_section_properties w h ''circulaire''
           = Inr (pi * w ^ 2 / 4, pi * w ^ 4 / 64, (pi * w ^ 4 / 64) / (w / 2))
       \<and> calculate_section_properties w h ''en I''
           = Inr (0.8 * w * h, 0.7 * w * h ^ 3 / 12, (0.7 * w * h ^ 3 / 12) / (h / 2))"
  using assms
  by (simp add: calculate_section_properties_def py_bind_def py_truediv_def Let_def)

theorem section_properties_formulas_witness:
  "(0.3::real) > 0 \<and> (0.5::real) > 0
   \<and> calculate_section_properties 0.3 0.5 ''rectangulaire'' = Inr (0.15, 0.003125, 0.0125)"
  using section_properties_formulas [of "0.3" "0.5"] by (simp add: power3_eq_cube)

subsection \<open>Applied load\<close>

lemma py_sum_sum_list: "py_sum xs = sum_list xs"
proof -
  have "foldl (+) a xs = a + sum_list xs" for a :: real
    by (induction xs arbitrary: a) simp_all
  then show ?thesis by (simp add: py_sum_def)
qed

text \<open>
  C10. For every non-empty load register the applied load of the stability tab is the
  sum of the \<open>valeur\<close> field of every entry: a point load contributes its magnitude and
  a distributed load contributes its intensity, not its \<open>force_equiv\<close>, and the two are
  added together as they are.
\<close>

theorem charge_appliquee_raw_values:
  assumes "forces \<noteq> []"
  shows "charge_appliquee forces
          = Some (sum_list (map (\<lambda>f. case f of Ponctuelle v d a m fp \<Rightarrow> v
                                      | Repartie q s e l fe me \<Rightarrow> q) forces))"
proof -
  have "valeur = (\<lambda>f. case f of Ponctuelle v d a m fp \<Rightarrow> v | Repartie q s e l fe me \<Rightarrow> q)"
    by (rule ext) (simp split: force.split)
  then show ?thesis using assms by (simp add: charge_appliquee_def py_sum_sum_list)
qed

theorem charge_appliquee_raw_values_witness:
  "[Ponctuelle 10 2 90 20000 10000, Repartie 5 0 4 4 20 40] \<noteq> []
   \<and> charge_appliquee [Ponctuelle 10 2 90 20000 10000, Repartie 5 0 4 4 20 40] = Some 15"
  using charge_appliquee_raw_values [of "[Ponctuelle 10 2 90 20000 10000, Repartie 5 0 4 4 20 40]"]
  by simp

subsection \<open>Allowable stress\<close>

lemma contrainte_adm_catalog:
  "contrainte_adm ''Acier S235'' = Inr (235000000 / 1.15)
   \<and> contrainte_adm ''Acier S355'' = Inr (355000000 / 1.15)
   \<and> contrainte_adm ''Acier S500'' = Inr (500000000 / 1.15)
   \<and> contrainte_adm Beton_C25_30 = Inr (25000000 / 1.5)
   \<and> contrainte_adm Beton_C30_37 = Inr (30000000 / 1.5)"
  by (simp add: contrainte_adm_def materials_def getitem_def py_bind_def
        Beton_C25_30_def Beton_C30_37_def)

text \<open>
  C2 at the wood entry. The catalog entry \<open>Bois Classe C24\<close> has the keys \<open>E\<close>, \<open>fm\<close>
  and \<open>weight\<close>. Its name does not contain \<open>Acier\<close>, so the else branch reads the key
  \<open>fc\<close>, which the entry does not have: the lookup raises \<open>KeyError\<close> and no allowable
  stress is computed. For the three steels and the two concretes the values are those
  of \<open>contrainte_adm_catalog\<close>.
\<close>

theorem contrainte_adm_bois_key_error: "contrainte_adm ''Bois Classe C24'' = Inl (KeyError ''fc'')"
  by (simp add: contrainte_adm_def materials_def getitem_def py_bind_def
        Beton_C25_30_def Beton_C30_37_def)

subsection \<open>Moment diagram\<close>

lemma length_add_force:
  "length mp = length xs \<Longrightarrow> length (add_force xs mp f) = length xs"
  by (cases f) simp_all

lemma nth_add_force:
  "length mp = length xs \<Longrightarrow> i < length xs \<Longrightarrow>
     add_force xs mp f ! i = mp ! i + contribution f (xs ! i)"
  by (cases f) simp_all

lemma foldl_add_force:
  "length mp = length xs \<Longrightarrow>
     length (foldl (add_force xs) mp forces) = length xs
     \<and> (\<forall>i < length xs. foldl (add_force xs) mp forces ! i
            = mp ! i + sum_list (map (\<lambda>f. contribution f (xs ! i)) forces))"
proof (induction forces arbitrary: mp)
  case Nil
  then show ?case by simp
next
  case (Cons f fs)
  have l: "length (add_force xs mp f) = length xs"
    using Cons.prems by (rule length_add_force)
  show ?case
    using Cons.IH [OF l] Cons.prems by (simp add: nth_add_force add.assoc)
qed

lemma moment_points_map:
  "moment_points xs forces = map (\<lambda>x. sum_list (map (\<lambda>f. contribution f x) forces)) xs"
proof (rule nth_equalityI)
  show "length (moment_points xs forces)
      = length (map (\<lambda>x. sum_list (map (\<lambda>f. contribution f x) forces)) xs)"
    using foldl_add_force [of "replicate (length xs) 0" xs forces]
    by (simp add: moment_points_def)
next
  fix i assume "i < length (moment_points xs forces)"
  then have i: "i < length xs"
    using foldl_add_force [of "replicate (length xs) 0" xs forces]
    by (simp add: moment_points_def)
  then show "moment_points xs forces ! i
      = map (\<lambda>x. sum_list (map (\<lambda>f. contribution f x) forces)) xs ! i"
    using foldl_add_force [of "replicate (length xs) 0" xs forces]
    by (simp add: moment_points_def)
qed

lemma x_points_map: "x_points = map (\<lambda>i. real i * 10 / 99) [0..<100]"
proof -
  have "(map (\<lambda>i. real i * 10 / 99) [0..<100]) [99 := 10]
      = (map (\<lambda>i. real i * 10 / 99) [0..<100]) [99 := map (\<lambda>i. real i * 10 / 99) [0..<100] ! 99]"
    by simp
  also have "\<dots> = map (\<lambda>i. real i * 10 / 99) [0..<100]"
    by (rule list_update_id)
  finally show ?thesis by (simp add: x_points_def linspace_def)
qed

text \<open>
  C6, as the code has it. For every load register the moment diagram is the sequence
  of 100 (position, moment) pairs at the evenly spaced positions 10 * i / 99,
  i = 0, ..., 99, covering [0, 10]; span and sample count are constants of the code.
  At a position x a point load at distance d contributes its stored \<open>moment\<close> divided by
  1000 if x \<ge> d and 0 otherwise; a distributed load over [start, end] contributes 0 for
  x < start, intensity * (x - start)^2 / 2 for start \<le> x \<le> end, and its stored
  \<open>moment_equiv\<close> for x > end.
\<close>

theorem moment_diagram_samples:
  "moment_diagram forces =
     map (\<lambda>i. (real i * 10 / 99, sum_list (map (\<lambda>f. contribution f (real i * 10 / 99)) forces)))
       [0..<100]"
  unfolding moment_diagram_def moment_points_map x_points_map
  by (simp add: zip_map_map zip_same_conv_map comp_def)

text \<open>
  C6 as stated lets span and sample count vary and has a point load contribute its
  moment. For the register holding the single point load of 10 kN at 2 m and 90 degrees
  (stored moment 20000) the diagram has 100 samples, its last position is 10, and the
  value there is 20, not the stored moment.
\<close>

theorem moment_diagram_counterexample:
  "length (moment_diagram [Ponctuelle 10 2 90 20000 10000]) = 100
   \<and> moment_diagram [Ponctuelle 10 2 90 20000 10000] ! 99 = (10, 20)
   \<and> snd (moment_diagram [Ponctuelle 10 2 90 20000 10000] ! 99)
       \<noteq> moment (Ponctuelle 10 2 90 20000 10000)"
  unfolding moment_diagram_def moment_points_map x_points_map
  by simp

subsection \<open>Deflection\<close>

lemma foldl_fleche_step:
  "E \<noteq> 0 \<Longrightarrow> foldl (fleche_step L E) (Inr a) forces
     = Inr (a + sum_list (map (\<lambda>f. valeur f * 1000 * L ^ 3 / (48 * E * I_est))
                            (filter is_ponctuelle forces)))"
proof (induction forces arbitrary: a)
  case Nil
  show ?case by simp
next
  case (Cons f fs)
  have "I_est \<noteq> 0" by (simp add: I_est_def)
  then show ?case
    using Cons.prems by (cases f) (simp_all add: Cons.IH py_bind_def py_truediv_def Let_def)
qed

text \<open>
  C7, as the code has it. For every non-empty load register, beam length > 0 and
  elastic modulus E \<noteq> 0, the computed deflection is the sum over the point loads only
  of (\<open>valeur\<close> * 1000) * length^3 / (48 * E * I) with the inertia I fixed at the estimate
  0.3 * 0.5^3 / 12 of line 443; distributed loads contribute nothing.
\<close>

theorem fleche_max_point_loads:
  assumes "forces \<noteq> []" and "L > 0" and "E \<noteq> 0"
  shows "fleche_max forces L E
           = Some (Inr (sum_list (map (\<lambda>f. valeur f * 1000 * L ^ 3 / (48 * E * (0.3 * 0.5 ^ 3 / 12)))
                                   (filter is_ponctuelle forces))))"
  using assms by (simp add: fleche_max_def foldl_fleche_step I_est_def)

theorem fleche_max_point_loads_witness:
  "[Ponctuelle 10 2 90 20000 10000, Repartie 5 0 4 4 20 40] \<noteq> [] \<and> (6::real) > 0
   \<and> (210000000000::real) \<noteq> 0
   \<and> fleche_max [Ponctuelle 10 2 90 20000 10000, Repartie 5 0 4 4 20 40] 6 210000000000
       = Some (Inr (3 / 43750))"
  using fleche_max_point_loads
    [of "[Ponctuelle 10 2 90 20000 10000, Repartie 5 0 4 4 20 40]" 6 210000000000]
  by (simp add: power3_eq_cube)

text \<open>
  C7 as stated lets the section inertia vary. For one point load of 10 kN on a beam
  of 6 m with E = 210e9 and inertia 1 the formula of the claim gives
  10000 * 6^3 / (48 * 210e9 * 1), which is not the deflection the code computes.
\<close>

theorem fleche_max_counterexample:
  "fleche_max [Ponctuelle 10 2 90 20000 10000] 6 210000000000
     \<noteq> Some (Inr (10 * 1000 * 6 ^ 3 / (48 * 210000000000 * 1)))"
  by (simp add: fleche_max_def py_bind_def py_truediv_def I_est_def power3_eq_cube)

end
